theory Spec2Isabelle
  imports Complex_Main "HOL-Library.Sublist"
begin

section \<open>Values of the run-time\<close>

text \<open>
  A JavaScript number is modelled as an exact rational: arithmetic does not round, and
  \<open>NaN\<close> and the infinities have no counterpart. Every number the properties below are
  evaluated at (the progress checkpoints, \<open>0 / n * 80\<close>, the timestamps \<open>125.25\<close> and
  \<open>3600\<close>) is a dyadic rational on which double arithmetic is exact.
\<close>

type_synonym num = rat

text \<open>What a \<open>catch\<close> clause receives: an \<open>Error\<close> instance with its message, or any
  other thrown value.\<close>

datatype thrown = JsError string | NonError

text \<open>\<open>a % b\<close>: the remainder takes the sign of the dividend.\<close>

definition js_rem :: "num \<Rightarrow> num \<Rightarrow> num" where
  "js_rem a b = a - b * of_int (if 0 \<le> a / b then \<lfloor>a / b\<rfloor> else \<lceil>a / b\<rceil>)"

text \<open>\<open>v || d\<close> on an optional string and on an optional number.\<close>

definition str_or :: "string option \<Rightarrow> string \<Rightarrow> string" where
  "str_or v d = (case v of None \<Rightarrow> d | Some s \<Rightarrow> if s = [] then d else s)"

definition num_or :: "num option \<Rightarrow> num \<Rightarrow> num" where
  "num_or v d = (case v of None \<Rightarrow> d | Some n \<Rightarrow> if n = 0 then d else n)"

text \<open>\<open>toString()\<close> of an integral number: its decimal digits, with a sign if it is
  negative (what JavaScript prints for integers below \<open>10^21\<close>).\<close>

definition digit_char :: "nat \<Rightarrow> char" where
  "digit_char d = ''0123456789'' ! d"

fun toString_nat :: "nat \<Rightarrow> string" where
  "toString_nat n =
     (if n < 10 then [digit_char n]
      else toString_nat (n div 10) @ [digit_char (n mod 10)])"

declare toString_nat.simps [simp del]

definition toString_int :: "int \<Rightarrow> string" where
  "toString_int i = (if i < 0 then ''-'' @ toString_nat (nat (- i)) else toString_nat (nat i))"

text \<open>\<open>s.padStart(n, c)\<close> for a one-character filler, \<open>xs.join(sep)\<close> and
  \<open>path.join(dir, name)\<close> for a directory without a trailing separator.\<close>

definition padStart :: "nat \<Rightarrow> char \<Rightarrow> string \<Rightarrow> string" where
  "padStart n c s = replicate (n - length s) c @ s"

fun join :: "string \<Rightarrow> string list \<Rightarrow> string" where
  "join sep [] = []"
| "join sep [s] = s"
| "join sep (s # t # rest) = s @ sep @ join sep (t # rest)"

definition path_join :: "string \<Rightarrow> string \<Rightarrow> string" where
  "path_join dir name = dir @ ''/'' @ name"

section \<open>Subtitle timestamps (\<open>formatTime\<close>)\<close>

definition formatTime :: "num \<Rightarrow> string" where
  "formatTime seconds =
     (let hours = \<lfloor>seconds / 3600\<rfloor>;
          minutes = \<lfloor>js_rem seconds 3600 / 60\<rfloor>;
          secs = \<lfloor>js_rem seconds 60\<rfloor>;
          ms = \<lfloor>js_rem seconds 1 * 1000\<rfloor>
      in padStart 2 CHR ''0'' (toString_int hours) @ '':'' @
         padStart 2 CHR ''0'' (toString_int minutes) @ '':'' @
         padStart 2 CHR ''0'' (toString_int secs) @ '','' @
         padStart 3 CHR ''0'' (toString_int ms))"




section \<open>The Recording document\<close>

text \<open>The fields of the Recording the engine reads or writes. An optional field is an
  \<open>option\<close>; \<open>seg_voice\<close> is \<open>voiceSettings?.voice\<close> and \<open>properties_scale\<close> is
  \<open>properties?.scale\<close>.\<close>

record coords =
  coord_x :: num
  coord_y :: num
  width :: num
  height :: num

datatype effect_type = Blur | Zoom | Highlight | Annotation

record visual_effect =
  eff_type :: effect_type
  eff_startTime :: num
  eff_endTime :: num
  coordinates :: "coords option"
  properties_scale :: "num option"

record subtitle =
  sub_text :: string
  sub_startTime :: num
  sub_endTime :: num

record segment =
  seg_id :: string
  seg_text :: string
  seg_voice :: "string option"
  seg_audioUrl :: "string option"

datatype status = Pending | Processing | Completed | Failed

record recording =
  originalVideoUrl :: string
  thumbnailUrl :: "string option"
  audioUrl :: "string option"
  visualEffects :: "visual_effect list"
  subtitles :: "subtitle list"
  script_segments :: "segment list"
  processingStatus :: status
  processingProgress :: num
  errorMessage :: "string option"

section \<open>Export options and the encoder command\<close>

record watermark_options =
  wm_enabled :: bool
  wm_text :: "string option"
  wm_position :: "string option"
  wm_opacity :: "num option"

record export_options =
  resolution :: "string option"
  frameRate :: "num option"
  quality :: "string option"
  includeSubtitles :: "bool option"
  includeAudio :: "bool option"
  opt_startTime :: "num option"
  opt_endTime :: "num option"
  watermark :: "watermark_options option"

datatype format = Mp4 | Gif | Webm

definition format_str :: "format \<Rightarrow> string" where
  "format_str f = (case f of Mp4 \<Rightarrow> ''mp4'' | Gif \<Rightarrow> ''gif'' | Webm \<Rightarrow> ''webm'')"

text \<open>A fluent-ffmpeg command is the list of the builder calls made on it, in call order.\<close>

datatype ffmpeg_call =
    Input string
  | ComplexFilter string
  | VideoCodec string
  | AudioCodec string
  | Size string
  | Fps num
  | AddOption string string
  | Output string

type_synonym command = "ffmpeg_call list"

section \<open>Effects on the outside world\<close>

text \<open>
  A run leaves a trace of the calls it makes, in call order; \<open>Progress\<close> is a call of the
  progress callback. The \<open>world\<close> is what the calls change: the Recording documents by id
  and the files present in the temporary directory. The \<open>env\<close> is everything the run does
  not decide: the generated names and clock readings, the rendering of a number in a
  template literal (\<open>num_str\<close>), and for each external call whether it resolves (and with
  what) or rejects (and with what); \<open>ffmpeg_run\<close> gives the \<open>percent\<close> values the encoder
  reports before it ends or fails. A computation takes the world and gives what it returned
  or threw, the world after, and its trace.
\<close>

datatype event =
    Progress num
  | FindById string
  | Save string
  | FindByIdAndUpdate string status string
  | HttpGet string
  | WriteStream string
  | Screenshots string string
  | ExtractAudio string string
  | ReadFile string
  | WriteFile string string
  | Unlink string
  | S3Upload string string
  | TextToSpeech string string
  | Run command

record world =
  db :: "string \<rightharpoonup> recording"
  files :: "string set"

record env =
  TEMP_DIR :: string
  uuidv4 :: "nat \<Rightarrow> string"
  date_now :: "nat \<Rightarrow> nat"
  num_str :: "num \<Rightarrow> string"
  db_findById :: "string \<Rightarrow> thrown option"
  db_save :: "string \<Rightarrow> thrown option"
  db_findByIdAndUpdate :: "string \<Rightarrow> thrown option"
  axios_get :: "string \<Rightarrow> thrown option"
  stream_finish :: "string \<Rightarrow> thrown option"
  ffmpeg_screenshots :: "string \<Rightarrow> thrown option"
  ffmpeg_extract :: "string \<Rightarrow> thrown option"
  ffmpeg_run :: "command \<Rightarrow> num option list \<times> thrown option"
  fs_readFile :: "string \<Rightarrow> thrown + string"
  fs_writeFile :: "string \<Rightarrow> thrown option"
  fs_unlink :: "string \<Rightarrow> thrown option"
  s3_upload :: "string \<Rightarrow> thrown + string"
  elevenlabs :: "string \<Rightarrow> string \<Rightarrow> thrown + string"

type_synonym 'a io = "world \<Rightarrow> (thrown + 'a) \<times> world \<times> event list"

definition ret :: "'a \<Rightarrow> 'a io" where
  "ret v w = (Inr v, w, [])"

definition throw :: "thrown \<Rightarrow> 'a io" where
  "throw e w = (Inl e, w, [])"

definition bnd :: "'a io \<Rightarrow> ('a \<Rightarrow> 'b io) \<Rightarrow> 'b io" where
  "bnd m f w =
     (case m w of
        (Inl e, w1, t1) \<Rightarrow> (Inl e, w1, t1)
      | (Inr v, w1, t1) \<Rightarrow> (case f v w1 of (r, w2, t2) \<Rightarrow> (r, w2, t1 @ t2)))"

definition try_catch :: "'a io \<Rightarrow> (thrown \<Rightarrow> 'a io) \<Rightarrow> 'a io" where
  "try_catch m h w =
     (case m w of
        (Inl e, w1, t1) \<Rightarrow> (case h e w1 of (r, w2, t2) \<Rightarrow> (r, w2, t1 @ t2))
      | (Inr v, w1, t1) \<Rightarrow> (Inr v, w1, t1))"

text \<open>An awaited call: it is traced, and if it resolves its effect takes place; a file
  is taken to exist only once the call that writes it has resolved.\<close>

definition settle :: "event \<Rightarrow> thrown option \<Rightarrow> (world \<Rightarrow> world) \<Rightarrow> unit io" where
  "settle ev out effect w =
     (case out of None \<Rightarrow> (Inr (), effect w, [ev]) | Some e \<Rightarrow> (Inl e, w, [ev]))"

definition settle_with :: "event \<Rightarrow> thrown + 'a \<Rightarrow> 'a io" where
  "settle_with ev out w = (out, w, [ev])"

text \<open>The three parts of a finished run.\<close>

definition result :: "(thrown + 'a) \<times> world \<times> event list \<Rightarrow> thrown + 'a" where
  "result r = fst r"

definition world_after :: "(thrown + 'a) \<times> world \<times> event list \<Rightarrow> world" where
  "world_after r = fst (snd r)"

definition events :: "(thrown + 'a) \<times> world \<times> event list \<Rightarrow> event list" where
  "events r = snd (snd r)"

text \<open>\<open>path.join(TEMP_DIR, `${uuidv4()}${ext}`)\<close> for the \<open>k\<close>-th name the run generates.\<close>

definition temp_path :: "env \<Rightarrow> nat \<Rightarrow> string \<Rightarrow> string" where
  "temp_path E k ext = path_join (TEMP_DIR E) (uuidv4 E k @ ext)"

section \<open>The calls the engine makes\<close>

definition findById :: "env \<Rightarrow> string \<Rightarrow> recording option io" where
  "findById E recordingId w =
     (case db_findById E recordingId of
        None \<Rightarrow> (Inr (db w recordingId), w, [FindById recordingId])
      | Some e \<Rightarrow> (Inl e, w, [FindById recordingId]))"

definition save :: "env \<Rightarrow> string \<Rightarrow> recording \<Rightarrow> unit io" where
  "save E recordingId doc =
     settle (Save recordingId) (db_save E recordingId)
       (\<lambda>w. w\<lparr>db := (db w)(recordingId \<mapsto> doc)\<rparr>)"

definition findByIdAndUpdate :: "env \<Rightarrow> string \<Rightarrow> status \<Rightarrow> string \<Rightarrow> unit io" where
  "findByIdAndUpdate E recordingId st msg =
     settle (FindByIdAndUpdate recordingId st msg) (db_findByIdAndUpdate E recordingId)
       (\<lambda>w. case db w recordingId of
              None \<Rightarrow> w
            | Some doc \<Rightarrow>
                w\<lparr>db := (db w)(recordingId \<mapsto>
                      doc\<lparr>processingStatus := st, errorMessage := Some msg\<rparr>)\<rparr>)"

definition creates :: "string \<Rightarrow> world \<Rightarrow> world" where
  "creates p w = w\<lparr>files := insert p (files w)\<rparr>"

definition removes :: "string \<Rightarrow> world \<Rightarrow> world" where
  "removes p w = w\<lparr>files := files w - {p}\<rparr>"

definition http_get :: "env \<Rightarrow> string \<Rightarrow> unit io" where
  "http_get E url = settle (HttpGet url) (axios_get E url) (\<lambda>w. w)"

definition write_stream :: "env \<Rightarrow> string \<Rightarrow> unit io" where
  "write_stream E p = settle (WriteStream p) (stream_finish E p) (creates p)"

definition screenshots :: "env \<Rightarrow> string \<Rightarrow> string \<Rightarrow> unit io" where
  "screenshots E src p = settle (Screenshots src p) (ffmpeg_screenshots E src) (creates p)"

definition extract_audio :: "env \<Rightarrow> string \<Rightarrow> string \<Rightarrow> unit io" where
  "extract_audio E src p = settle (ExtractAudio src p) (ffmpeg_extract E src) (creates p)"

definition readFile :: "env \<Rightarrow> string \<Rightarrow> string io" where
  "readFile E p = settle_with (ReadFile p) (fs_readFile E p)"

definition writeFile :: "env \<Rightarrow> string \<Rightarrow> string \<Rightarrow> unit io" where
  "writeFile E p content = settle (WriteFile p content) (fs_writeFile E p) (creates p)"

text \<open>\<open>fs.unlink(p).catch(() => {})\<close>\<close>

definition unlink_quiet :: "env \<Rightarrow> string \<Rightarrow> unit io" where
  "unlink_quiet E p =
     try_catch (settle (Unlink p) (fs_unlink E p) (removes p)) (\<lambda>_. ret ())"

text \<open>\<open>uploadToS3\<close> of the storage service: any failure of the upload is replaced by a
  fixed \<open>Error\<close>.\<close>

definition uploadToS3 :: "env \<Rightarrow> string \<Rightarrow> string \<Rightarrow> string \<Rightarrow> string io" where
  "uploadToS3 E buffer key contentType =
     try_catch (settle_with (S3Upload key contentType) (s3_upload E key))
       (\<lambda>error. throw (JsError ''Failed to upload file to S3''))"

definition text_to_speech :: "env \<Rightarrow> string \<Rightarrow> string \<Rightarrow> string io" where
  "text_to_speech E voice text = settle_with (TextToSpeech voice text) (elevenlabs E voice text)"

text \<open>\<open>job.progress(p)\<close>: one value on the job's progress channel.\<close>

definition job_progress :: "num \<Rightarrow> unit io" where
  "job_progress p w = (Inr (), w, [Progress p])"

definition error_message :: "thrown \<Rightarrow> string" where
  "error_message error = (case error of JsError m \<Rightarrow> m | NonError \<Rightarrow> ''Unknown error'')"

section \<open>\<open>processVideo\<close>\<close>

text \<open>
  The body of the \<open>try\<close> block, then the function with its \<open>catch\<close> clause. The model
  covers the runs in which every awaited call settles. The source builds the
  audio-extraction command without calling \<open>run\<close> on it (the encode of \<open>exportVideo\<close>
  does call it); whether that promise ever settles depends on the library. The parameter
  \<open>uiEvents\<close> is never read and is left out; the three deletions of \<open>Promise.all\<close> are
  taken in the order they are started. Calls of the logger are not recorded.
\<close>

record process_result =
  pr_recordingId :: string
  pr_thumbnailUrl :: string
  pr_audioUrl :: string
  pr_status :: string

definition processVideo_try ::
  "env \<Rightarrow> string \<Rightarrow> string \<Rightarrow> (num \<Rightarrow> unit io) \<Rightarrow> process_result io" where
  "processVideo_try E recordingId videoUrl progressCallback =
     bnd (findById E recordingId) (\<lambda>found.
     case found of
       None \<Rightarrow> throw (JsError ''Recording not found'')
     | Some recording \<Rightarrow>
     bnd (progressCallback 20) (\<lambda>_.
     bnd (http_get E videoUrl) (\<lambda>_.
     let tempVideoPath = temp_path E 0 ''.mp4'' in
     bnd (write_stream E tempVideoPath) (\<lambda>_.
     bnd (progressCallback 40) (\<lambda>_.
     let thumbnailPath = temp_path E 1 ''.jpg'' in
     bnd (screenshots E tempVideoPath thumbnailPath) (\<lambda>_.
     bnd (progressCallback 60) (\<lambda>_.
     bnd (readFile E thumbnailPath) (\<lambda>thumbnailBuffer.
     let thumbnailKey =
           ''thumbnails/'' @ recordingId @ ''/'' @ toString_nat (date_now E 0) @ ''.jpg'' in
     bnd (uploadToS3 E thumbnailBuffer thumbnailKey ''image/jpeg'') (\<lambda>thumbnailUrl'.
     bnd (progressCallback 80) (\<lambda>_.
     let audioPath = temp_path E 2 ''.wav'' in
     bnd (extract_audio E tempVideoPath audioPath) (\<lambda>_.
     bnd (readFile E audioPath) (\<lambda>audioBuffer.
     let audioKey = ''audio/'' @ recordingId @ ''/'' @ toString_nat (date_now E 1) @ ''.wav'' in
     bnd (uploadToS3 E audioBuffer audioKey ''audio/wav'') (\<lambda>audioUrl'.
     bnd (progressCallback 90) (\<lambda>_.
     bnd (save E recordingId
            (recording\<lparr>thumbnailUrl := Some thumbnailUrl', audioUrl := Some audioUrl',
               processingStatus := Completed, processingProgress := 100\<rparr>)) (\<lambda>_.
     bnd (unlink_quiet E tempVideoPath) (\<lambda>_.
     bnd (unlink_quiet E thumbnailPath) (\<lambda>_.
     bnd (unlink_quiet E audioPath) (\<lambda>_.
     bnd (progressCallback 100) (\<lambda>_.
     ret \<lparr>pr_recordingId = recordingId, pr_thumbnailUrl = thumbnailUrl',
          pr_audioUrl = audioUrl', pr_status = ''completed''\<rparr>)))))))))))))))))))"

definition processVideo ::
  "env \<Rightarrow> string \<Rightarrow> string \<Rightarrow> (num \<Rightarrow> unit io) \<Rightarrow> process_result io" where
  "processVideo E recordingId videoUrl progressCallback =
     try_catch (processVideo_try E recordingId videoUrl progressCallback) (\<lambda>error.
       bnd (try_catch (findByIdAndUpdate E recordingId Failed (error_message error))
              (\<lambda>updateError. ret ())) (\<lambda>_.
       throw error))"

section \<open>\<open>generateAudio\<close>\<close>

record audio_result =
  ar_recordingId :: string
  ar_segments :: "segment list"
  ar_status :: string

text \<open>The \<open>for\<close> loop over the segments, from index \<open>i\<close>; it returns the segments it has
  worked on, each with the URL it was given.\<close>

fun generateAudio_loop ::
  "env \<Rightarrow> string \<Rightarrow> (num \<Rightarrow> unit io) \<Rightarrow> nat \<Rightarrow> nat \<Rightarrow> segment list \<Rightarrow> segment list io" where
  "generateAudio_loop E recordingId progressCallback totalSegments i [] = ret []"
| "generateAudio_loop E recordingId progressCallback totalSegments i (segment # rest) =
     bnd (progressCallback (of_nat i / of_nat totalSegments * 80)) (\<lambda>_.
     bnd (text_to_speech E (str_or (seg_voice segment) ''rachel'') (seg_text segment)) (\<lambda>audio.
     let audioKey = ''segments/'' @ recordingId @ ''/'' @ seg_id segment @ ''.mp3'' in
     bnd (uploadToS3 E audio audioKey ''audio/mpeg'') (\<lambda>audioUrl'.
     bnd (generateAudio_loop E recordingId progressCallback totalSegments (Suc i) rest) (\<lambda>others.
     ret (segment\<lparr>seg_audioUrl := Some audioUrl'\<rparr> # others)))))"

definition generateAudio ::
  "env \<Rightarrow> string \<Rightarrow> segment list \<Rightarrow> (num \<Rightarrow> unit io) \<Rightarrow> audio_result io" where
  "generateAudio E recordingId segments progressCallback =
     try_catch
       (bnd (findById E recordingId) (\<lambda>found.
        case found of
          None \<Rightarrow> throw (JsError ''Recording not found'')
        | Some recording \<Rightarrow>
        bnd (generateAudio_loop E recordingId progressCallback (length segments) 0 segments)
          (\<lambda>segments'.
        bnd (progressCallback 90) (\<lambda>_.
        bnd (save E recordingId (recording\<lparr>script_segments := segments'\<rparr>)) (\<lambda>_.
        bnd (progressCallback 100) (\<lambda>_.
        ret \<lparr>ar_recordingId = recordingId, ar_segments = segments',
             ar_status = ''completed''\<rparr>))))))
       (\<lambda>error. throw error)"

section \<open>\<open>exportVideo\<close>\<close>

text \<open>What one iteration of \<open>visualEffects.forEach\<close> pushes onto \<open>filters\<close>. The
  numbers of a template literal are rendered by the run-time's conversion \<open>ns\<close>.\<close>

definition effect_filter :: "(num \<Rightarrow> string) \<Rightarrow> nat \<Rightarrow> visual_effect \<Rightarrow> string list" where
  "effect_filter ns index effect =
     (let startTime = eff_startTime effect; endTime = eff_endTime effect;
          idx = toString_nat index in
      case eff_type effect of
        Blur \<Rightarrow>
          (case coordinates effect of
             None \<Rightarrow> []
           | Some c \<Rightarrow>
               [''[0:v]crop='' @ ns (width c) @ '':'' @ ns (height c) @ '':'' @ ns (coord_x c)
                  @ '':'' @ ns (coord_y c) @ '',boxblur=10:1[blurred'' @ idx @ ''];''
                @ ''[0:v][blurred'' @ idx @ '']overlay='' @ ns (coord_x c) @ '':''
                  @ ns (coord_y c) @ '':enable='' @ [CHR 0x27] @ ''between(t,'' @ ns startTime
                  @ '','' @ ns endTime @ '')'' @ [CHR 0x27] @ ''[v'' @ idx @ '']''])
      | Zoom \<Rightarrow>
          (case coordinates effect of
             None \<Rightarrow> []
           | Some c \<Rightarrow>
               (let scale = num_or (properties_scale effect) (3 / 2) in
                [''[0:v]crop='' @ ns (width c) @ '':'' @ ns (height c) @ '':'' @ ns (coord_x c)
                   @ '':'' @ ns (coord_y c) @ '',scale='' @ ns (width c * scale) @ '':''
                   @ ns (height c * scale) @ ''[zoomed'' @ idx @ ''];''
                 @ ''[0:v][zoomed'' @ idx @ '']overlay=''
                   @ ns (coord_x c - (width c * (scale - 1)) / 2) @ '':''
                   @ ns (coord_y c - (height c * (scale - 1)) / 2)
                   @ '':enable='' @ [CHR 0x27] @ ''between(t,'' @ ns startTime
                   @ '','' @ ns endTime @ '')'' @ [CHR 0x27] @ ''[v'' @ idx @ '']'']))
      | Highlight \<Rightarrow>
          (case coordinates effect of
             None \<Rightarrow> []
           | Some c \<Rightarrow>
               [''[0:v]drawbox=x='' @ ns (coord_x c) @ '':y='' @ ns (coord_y c) @ '':w=''
                  @ ns (width c) @ '':h='' @ ns (height c) @ '':color=yellow@0.3:t=3:enable=''
                  @ [CHR 0x27] @ ''between(t,'' @ ns startTime @ '','' @ ns endTime @ '')''
                  @ [CHR 0x27] @ ''[v'' @ idx @ '']''])
      | Annotation \<Rightarrow> [])"

text \<open>\<open>visualEffects.forEach((effect, index) => ...)\<close> on the array \<open>filters\<close>.\<close>

fun forEach_effect ::
  "(num \<Rightarrow> string) \<Rightarrow> nat \<Rightarrow> visual_effect list \<Rightarrow> string list \<Rightarrow> string list" where
  "forEach_effect ns index [] filters = filters"
| "forEach_effect ns index (effect # rest) filters =
     forEach_effect ns (Suc index) rest (filters @ effect_filter ns index effect)"

definition apply_effects :: "(num \<Rightarrow> string) \<Rightarrow> visual_effect list \<Rightarrow> command \<Rightarrow> command" where
  "apply_effects ns effects command =
     (if length effects > 0 then
        (let filters = forEach_effect ns 0 effects [] in
         if length filters > 0 then command @ [ComplexFilter (join '';'' filters)]
         else command)
      else command)"

definition configure_output :: "format \<Rightarrow> export_options \<Rightarrow> command \<Rightarrow> command" where
  "configure_output format options command =
     (case format of
        Mp4 \<Rightarrow>
          command @ [VideoCodec ''libx264'', AudioCodec ''aac'',
                     Size (str_or (resolution options) ''1920x1080''),
                     Fps (num_or (frameRate options) 30)]
      | Gif \<Rightarrow>
          command @ [VideoCodec ''gif'',
                     Size (str_or (resolution options) ''800x600''),
                     Fps (num_or (frameRate options) 15)]
      | Webm \<Rightarrow>
          command @ [VideoCodec ''libvpx-vp9'', AudioCodec ''libvorbis'',
                     Size (str_or (resolution options) ''1920x1080''),
                     Fps (num_or (frameRate options) 30)])"

fun srt_cues :: "nat \<Rightarrow> subtitle list \<Rightarrow> string list" where
  "srt_cues index [] = []"
| "srt_cues index (sub # rest) =
     (toString_nat (index + 1) @ [CHR 0x0A] @ formatTime (sub_startTime sub) @ '' --> ''
        @ formatTime (sub_endTime sub) @ [CHR 0x0A] @ sub_text sub @ [CHR 0x0A])
     # srt_cues (Suc index) rest"

definition srtContent :: "subtitle list \<Rightarrow> string" where
  "srtContent subs = join [CHR 0x0A] (srt_cues 0 subs)"

text \<open>The \<open>progress\<close> listener of the encode.\<close>

definition encode_percent :: "num option \<Rightarrow> num" where
  "encode_percent percent = min (70 + num_or percent 0 * (1 / 5)) 90"

fun for_each :: "('a \<Rightarrow> unit io) \<Rightarrow> 'a list \<Rightarrow> unit io" where
  "for_each f [] = ret ()"
| "for_each f (v # vs) = bnd (f v) (\<lambda>_. for_each f vs)"

definition run_command :: "env \<Rightarrow> command \<Rightarrow> string \<Rightarrow> (num \<Rightarrow> unit io) \<Rightarrow> unit io" where
  "run_command E command outputPath progressCallback =
     bnd (settle_with (Run command) (Inr ())) (\<lambda>_.
     bnd (for_each (\<lambda>percent. progressCallback (encode_percent percent))
            (fst (ffmpeg_run E command))) (\<lambda>_.
     (\<lambda>w. case snd (ffmpeg_run E command) of
            None \<Rightarrow> (Inr (), creates outputPath w, [])
          | Some e \<Rightarrow> (Inl e, w, []))))"

record export_result =
  er_recordingId :: string
  er_format :: format
  er_exportUrl :: string
  er_fileSize :: nat
  er_status :: string

definition exportVideo ::
  "env \<Rightarrow> string \<Rightarrow> format \<Rightarrow> export_options \<Rightarrow> (num \<Rightarrow> unit io) \<Rightarrow> export_result io" where
  "exportVideo E recordingId format options progressCallback =
     try_catch
       (bnd (findById E recordingId) (\<lambda>found.
        case found of
          None \<Rightarrow> throw (JsError ''Recording not found'')
        | Some recording \<Rightarrow>
        bnd (progressCallback 10) (\<lambda>_.
        bnd (http_get E (originalVideoUrl recording)) (\<lambda>_.
        let tempVideoPath = temp_path E 0 ''.mp4'' in
        bnd (write_stream E tempVideoPath) (\<lambda>_.
        bnd (progressCallback 30) (\<lambda>_.
        let outputPath = temp_path E 1 (''.'' @ format_str format);
            command0 = [Input tempVideoPath];
            command1 = apply_effects (num_str E) (visualEffects recording) command0 in
        bnd (progressCallback 50) (\<lambda>_.
        let command2 = configure_output format options command1 in
        bnd (if length (subtitles recording) > 0 then
               (let subtitlePath = temp_path E 2 ''.srt'' in
                bnd (writeFile E subtitlePath (srtContent (subtitles recording))) (\<lambda>_.
                ret (command2 @ [AddOption ''-vf'' (''subtitles='' @ subtitlePath)])))
             else ret command2) (\<lambda>command3.
        bnd (progressCallback 70) (\<lambda>_.
        bnd (run_command E (command3 @ [Output outputPath]) outputPath progressCallback) (\<lambda>_.
        bnd (progressCallback 95) (\<lambda>_.
        bnd (readFile E outputPath) (\<lambda>exportedBuffer.
        let exportKey = ''exports/'' @ recordingId @ ''/'' @ toString_nat (date_now E 0)
                          @ ''.'' @ format_str format in
        bnd (uploadToS3 E exportedBuffer exportKey (''video/'' @ format_str format))
          (\<lambda>exportUrl.
        bnd (unlink_quiet E tempVideoPath) (\<lambda>_.
        bnd (unlink_quiet E outputPath) (\<lambda>_.
        bnd (progressCallback 100) (\<lambda>_.
        ret \<lparr>er_recordingId = recordingId, er_format = format, er_exportUrl = exportUrl,
             er_fileSize = length exportedBuffer, er_status = ''completed''\<rparr>))))))))))))))))
       (\<lambda>error. throw error)"

section \<open>The queue's lanes and their workers\<close>

text \<open>The \<open>defaultJobOptions\<close> each lane is constructed with. What the broker library
  makes of them (when it retries, after what delay) is not part of the repository.\<close>

datatype backoff_type = Fixed | Exponential

record job_options =
  removeOnComplete :: nat
  removeOnFail :: nat
  attempts :: nat
  backoff_type :: backoff_type
  backoff_delay :: nat

definition processVideoQueue :: job_options where
  "processVideoQueue =
     \<lparr>removeOnComplete = 10, removeOnFail = 5, attempts = 3,
      backoff_type = Exponential, backoff_delay = 2000\<rparr>"

definition audioGenerationQueue :: job_options where
  "audioGenerationQueue =
     \<lparr>removeOnComplete = 10, removeOnFail = 5, attempts = 3,
      backoff_type = Exponential, backoff_delay = 1000\<rparr>"

definition exportQueue :: job_options where
  "exportQueue =
     \<lparr>removeOnComplete = 5, removeOnFail = 3, attempts = 2,
      backoff_type = Exponential, backoff_delay = 5000\<rparr>"

text \<open>The three \<open>process\<close> handlers: a first report of 10, then the engine with
  \<open>job.progress\<close> as its callback; a failure is logged and thrown again.\<close>

definition process_video_job :: "env \<Rightarrow> string \<Rightarrow> string \<Rightarrow> process_result io" where
  "process_video_job E recordingId videoUrl =
     try_catch
       (bnd (job_progress 10) (\<lambda>_. processVideo E recordingId videoUrl job_progress))
       (\<lambda>error. throw error)"

definition generate_audio_job :: "env \<Rightarrow> string \<Rightarrow> segment list \<Rightarrow> audio_result io" where
  "generate_audio_job E recordingId segments =
     try_catch
       (bnd (job_progress 10) (\<lambda>_. generateAudio E recordingId segments job_progress))
       (\<lambda>error. throw error)"

definition export_video_job ::
  "env \<Rightarrow> string \<Rightarrow> format \<Rightarrow> export_options \<Rightarrow> export_result io" where
  "export_video_job E recordingId format options =
     try_catch
       (bnd (job_progress 10) (\<lambda>_. exportVideo E recordingId format options job_progress))
       (\<lambda>error. throw error)"

text \<open>The values a run put on the progress channel, in call order.\<close>

fun progress_values :: "event list \<Rightarrow> num list" where
  "progress_values [] = []"
| "progress_values (Progress p # es) = p # progress_values es"
| "progress_values (e # es) = progress_values es"

section \<open>Vocabulary of the properties\<close>

text \<open>The run returned rather than threw.\<close>

definition returned :: "(thrown + 'a) \<times> world \<times> event list \<Rightarrow> bool" where
  "returned r = (case result r of Inr _ \<Rightarrow> True | Inl _ \<Rightarrow> False)"


text \<open>The files a run tried to delete, in call order.\<close>

fun unlinks :: "event list \<Rightarrow> string list" where
  "unlinks [] = []"
| "unlinks (Unlink p # es) = p # unlinks es"
| "unlinks (e # es) = unlinks es"



text \<open>The options object \<open>{}\<close>.\<close>

definition empty_options :: export_options where
  "empty_options =
     \<lparr>resolution = None, frameRate = None, quality = None, includeSubtitles = None,
      includeAudio = None, opt_startTime = None, opt_endTime = None, watermark = None\<rparr>"

text \<open>The command \<open>exportVideo\<close> hands to the encoder, as a function of what it reads.\<close>

definition export_command :: "env \<Rightarrow> recording \<Rightarrow> format \<Rightarrow> export_options \<Rightarrow> command" where
  "export_command E recording format options =
     configure_output format options
       (apply_effects (num_str E) (visualEffects recording) [Input (temp_path E 0 ''.mp4'')])
     @ (if subtitles recording = [] then []
        else [AddOption ''-vf'' (''subtitles='' @ temp_path E 2 ''.srt'')])
     @ [Output (temp_path E 1 (''.'' @ format_str format))]"

section \<open>Scenarios\<close>

text \<open>
  An environment in which every call succeeds, and three in which one step fails: the
  thumbnail, the download together with the status update, the encode. A Recording that is
  being processed, with one segment that already has a clip, and a Recording with one
  subtitle cue and two visual effects, the first of them without \<open>coordinates\<close>.
\<close>

definition quiet_env :: env where
  "quiet_env =
     \<lparr>TEMP_DIR = ''/tmp'',
      uuidv4 = (\<lambda>k. if k = 0 then ''a'' else if k = 1 then ''b'' else ''c''),
      date_now = (\<lambda>k. k),
      num_str = (\<lambda>q. toString_int \<lfloor>q\<rfloor>),
      db_findById = (\<lambda>_. None),
      db_save = (\<lambda>_. None),
      db_findByIdAndUpdate = (\<lambda>_. None),
      axios_get = (\<lambda>_. None),
      stream_finish = (\<lambda>_. None),
      ffmpeg_screenshots = (\<lambda>_. None),
      ffmpeg_extract = (\<lambda>_. None),
      ffmpeg_run = (\<lambda>_. ([Some 50], None)),
      fs_readFile = (\<lambda>_. Inr ''data''),
      fs_writeFile = (\<lambda>_. None),
      fs_unlink = (\<lambda>_. None),
      s3_upload = (\<lambda>key. Inr (''s3://'' @ key)),
      elevenlabs = (\<lambda>voice text. Inr ''mp3'')\<rparr>"

definition demo_segment :: segment where
  "demo_segment =
     \<lparr>seg_id = ''s1'', seg_text = ''Hello'', seg_voice = None, seg_audioUrl = Some ''s3://old''\<rparr>"

definition demo_recording :: recording where
  "demo_recording =
     \<lparr>originalVideoUrl = ''http://v'', thumbnailUrl = None, audioUrl = None,
      visualEffects = [], subtitles = [], script_segments = [demo_segment],
      processingStatus = Processing, processingProgress = 0, errorMessage = None\<rparr>"

definition demo_world :: world where
  "demo_world = \<lparr>db = [''r1'' \<mapsto> demo_recording], files = {}\<rparr>"

definition thumbnail_failure_env :: env where
  "thumbnail_failure_env =
     quiet_env\<lparr>ffmpeg_screenshots := (\<lambda>_. Some (JsError ''ffmpeg exited with code 1''))\<rparr>"

definition outage_env :: env where
  "outage_env =
     quiet_env\<lparr>axios_get := (\<lambda>_. Some (JsError ''ETIMEDOUT'')),
                db_findByIdAndUpdate := (\<lambda>_. Some (JsError ''connection closed''))\<rparr>"

definition subtitled_recording :: recording where
  "subtitled_recording =
     demo_recording\<lparr>subtitles := [\<lparr>sub_text = ''Hi'', sub_startTime = 0, sub_endTime = 3 / 2\<rparr>],
        visualEffects :=
          [\<lparr>eff_type = Blur, eff_startTime = 0, eff_endTime = 1, coordinates = None,
            properties_scale = None\<rparr>,
           \<lparr>eff_type = Highlight, eff_startTime = 1, eff_endTime = 2,
            coordinates = Some \<lparr>coord_x = 10, coord_y = 20, width = 30, height = 40\<rparr>,
            properties_scale = None\<rparr>]\<rparr>"

definition subtitled_world :: world where
  "subtitled_world = \<lparr>db = [''r2'' \<mapsto> subtitled_recording], files = {}\<rparr>"


section \<open>Reasoning about runs\<close>

text \<open>When a composed computation returns, and when it throws.\<close>

lemma events_eq [simp]: "events (r, w, t) = t"
  by (simp add: events_def)

lemma result_eq [simp]: "result (r, w, t) = r"
  by (simp add: result_def)

lemma world_after_eq [simp]: "world_after (r, w, t) = w"
  by (simp add: world_after_def)



lemma bnd_Inr:
  "bnd m f w = (Inr r, w', t) \<longleftrightarrow>
     (\<exists>v w1 t1 t2. m w = (Inr v, w1, t1) \<and> f v w1 = (Inr r, w', t2) \<and> t = t1 @ t2)"
  by (auto simp: bnd_def split: prod.splits sum.splits)

lemma settle_Inr:
  "settle ev out eff w = (Inr u, w', t) \<longleftrightarrow> out = None \<and> w' = eff w \<and> t = [ev]"
  by (auto simp: settle_def split: option.splits)

lemma settle_with_Inr:
  "settle_with ev out w = (Inr v, w', t) \<longleftrightarrow> out = Inr v \<and> w' = w \<and> t = [ev]"
  by (auto simp: settle_with_def)

lemma job_progress_Inr:
  "job_progress p w = (Inr u, w', t) \<longleftrightarrow> w' = w \<and> t = [Progress p]"
  by (auto simp: job_progress_def)

lemma ret_Inr: "ret v w = (Inr r, w', t) \<longleftrightarrow> r = v \<and> w' = w \<and> t = []"
  by (auto simp: ret_def)

lemma throw_Inr: "throw e w = (Inr r, w', t) \<longleftrightarrow> False"
  by (simp add: throw_def)

lemma findById_Inr:
  "findById E i w = (Inr v, w', t) \<longleftrightarrow>
     db_findById E i = None \<and> v = db w i \<and> w' = w \<and> t = [FindById i]"
  by (auto simp: findById_def split: option.splits)

lemma uploadToS3_Inr:
  "uploadToS3 E buffer key ct w = (Inr v, w', t) \<longleftrightarrow>
     s3_upload E key = Inr v \<and> w' = w \<and> t = [S3Upload key ct]"
  by (auto simp: uploadToS3_def try_catch_def settle_with_def throw_def split: sum.splits)

lemma unlink_quiet_eq:
  "unlink_quiet E p w =
     (Inr (), (case fs_unlink E p of None \<Rightarrow> removes p w | Some e \<Rightarrow> w), [Unlink p])"
  by (simp add: unlink_quiet_def try_catch_def settle_def ret_def split: option.splits)

lemma unlink_quiet_Inr:
  "unlink_quiet E p w = (Inr u, w', t) \<longleftrightarrow>
     w' = (case fs_unlink E p of None \<Rightarrow> removes p w | Some e \<Rightarrow> w) \<and> t = [Unlink p]"
  by (auto simp: unlink_quiet_eq)

lemmas success_simps =
  bnd_Inr settle_Inr settle_with_Inr job_progress_Inr ret_Inr throw_Inr findById_Inr
  uploadToS3_Inr unlink_quiet_Inr

lemma bnd_Inl:
  "bnd m f w = (Inl e, w', t) \<longleftrightarrow>
     m w = (Inl e, w', t) \<or>
     (\<exists>v w1 t1 t2. m w = (Inr v, w1, t1) \<and> f v w1 = (Inl e, w', t2) \<and> t = t1 @ t2)"
  by (auto simp: bnd_def split: prod.splits sum.splits)

lemma settle_Inl:
  "settle ev out eff w = (Inl e, w', t) \<longleftrightarrow> out = Some e \<and> w' = w \<and> t = [ev]"
  by (auto simp: settle_def split: option.splits)

lemma settle_with_Inl:
  "settle_with ev out w = (Inl e, w', t) \<longleftrightarrow> out = Inl e \<and> w' = w \<and> t = [ev]"
  by (auto simp: settle_with_def)

lemma job_progress_Inl: "job_progress p w = (Inl e, w', t) \<longleftrightarrow> False"
  by (simp add: job_progress_def)

lemma ret_Inl: "ret v w = (Inl e, w', t) \<longleftrightarrow> False"
  by (simp add: ret_def)

lemma throw_Inl: "throw e w = (Inl e', w', t) \<longleftrightarrow> e' = e \<and> w' = w \<and> t = []"
  by (auto simp: throw_def)

lemma findById_Inl:
  "findById E i w = (Inl e, w', t) \<longleftrightarrow>
     db_findById E i = Some e \<and> w' = w \<and> t = [FindById i]"
  by (auto simp: findById_def split: option.splits)

lemma uploadToS3_Inl:
  "uploadToS3 E buffer key ct w = (Inl e, w', t) \<longleftrightarrow>
     (\<exists>e0. s3_upload E key = Inl e0) \<and> e = JsError ''Failed to upload file to S3'' \<and> w' = w
     \<and> t = [S3Upload key ct]"
  by (auto simp: uploadToS3_def try_catch_def settle_with_def throw_def split: sum.splits)

lemma unlink_quiet_Inl: "unlink_quiet E p w = (Inl e, w', t) \<longleftrightarrow> False"
  by (simp add: unlink_quiet_eq)

lemmas failure_simps =
  bnd_Inl settle_Inl settle_with_Inl job_progress_Inl ret_Inl throw_Inl findById_Inl
  uploadToS3_Inl unlink_quiet_Inl

lemma try_catch_rethrow [simp]: "try_catch m (\<lambda>error. throw error) w = m w"
  by (auto simp: try_catch_def throw_def split: prod.splits sum.splits)

lemma try_catch_Inr:
  "try_catch m h w = (Inr r, w', t) \<longleftrightarrow>
     m w = (Inr r, w', t) \<or>
     (\<exists>e w1 t1 t2. m w = (Inl e, w1, t1) \<and> h e w1 = (Inr r, w', t2) \<and> t = t1 @ t2)"
  by (auto simp: try_catch_def split: prod.splits sum.splits)

lemma try_catch_Inl:
  "try_catch m h w = (Inl e', w', t) \<longleftrightarrow>
     (\<exists>e w1 t1 t2. m w = (Inl e, w1, t1) \<and> h e w1 = (Inl e', w', t2) \<and> t = t1 @ t2)"
  by (auto simp: try_catch_def split: prod.splits sum.splits)


lemma events_bnd:
  "events (bnd m f w) =
     (case m w of (Inl e, w1, t1) \<Rightarrow> t1 | (Inr v, w1, t1) \<Rightarrow> t1 @ events (f v w1))"
  by (simp add: bnd_def events_def split: prod.splits sum.splits)

lemma events_bnd_prefix: "\<exists>t. events (bnd m f w) = events (m w) @ t"
  by (cases "m w") (auto simp: bnd_def split: sum.splits prod.splits)

lemma db_creates [simp]: "db (creates p w) = db w"
  by (simp add: creates_def)

lemma db_removes [simp]: "db (removes p w) = db w"
  by (simp add: removes_def)

lemma progress_values_append:
  "progress_values (s @ t) = progress_values s @ progress_values t"
  by (induction s rule: progress_values.induct) simp_all

lemma unlinks_append [simp]: "unlinks (s @ t) = unlinks s @ unlinks t"
  by (induction s rule: unlinks.induct) simp_all

lemma unlinks_progress [simp]: "unlinks (map (\<lambda>v. Progress (f v)) vs) = []"
  by (induction vs) simp_all

lemma Run_in_progress [simp]: "Run c \<notin> set (map (\<lambda>v. Progress (f v)) vs)"
  by (induction vs) simp_all

section \<open>The timestamp of a subtitle cue\<close>









lemma toString_nat_nonempty: "1 \<le> length (toString_nat n)"
  by (simp add: toString_nat.simps [of n])






















section \<open>The options of the lanes\<close>

text \<open>The transform lane asks for 3 attempts and an exponential backoff from 2000 ms, the
  voice lane for 3 attempts from 1000 ms, the export lane for 2 attempts from 5000 ms.\<close>

lemma lane_job_options:
  "attempts processVideoQueue = 3 \<and> backoff_type processVideoQueue = Exponential
     \<and> backoff_delay processVideoQueue = 2000
   \<and> attempts audioGenerationQueue = 3 \<and> backoff_type audioGenerationQueue = Exponential
     \<and> backoff_delay audioGenerationQueue = 1000
   \<and> attempts exportQueue = 2 \<and> backoff_type exportQueue = Exponential
     \<and> backoff_delay exportQueue = 5000"
  by (simp add: processVideoQueue_def audioGenerationQueue_def exportQueue_def)

section \<open>The transform operation\<close>

lemma processVideo_try_events:
  assumes "processVideo_try E recordingId videoUrl job_progress w = (Inr r, w', t)"
  shows "t = [FindById recordingId, Progress 20, HttpGet videoUrl,
              WriteStream (temp_path E 0 ''.mp4''), Progress 40,
              Screenshots (temp_path E 0 ''.mp4'') (temp_path E 1 ''.jpg''), Progress 60,
              ReadFile (temp_path E 1 ''.jpg''),
              S3Upload (''thumbnails/'' @ recordingId @ ''/'' @ toString_nat (date_now E 0)
                          @ ''.jpg'') ''image/jpeg'',
              Progress 80,
              ExtractAudio (temp_path E 0 ''.mp4'') (temp_path E 2 ''.wav''),
              ReadFile (temp_path E 2 ''.wav''),
              S3Upload (''audio/'' @ recordingId @ ''/'' @ toString_nat (date_now E 1)
                          @ ''.wav'') ''audio/wav'',
              Progress 90, Save recordingId,
              Unlink (temp_path E 0 ''.mp4''), Unlink (temp_path E 1 ''.jpg''),
              Unlink (temp_path E 2 ''.wav''), Progress 100]"
  using assms
  unfolding processVideo_try_def Let_def http_get_def write_stream_def screenshots_def
    extract_audio_def readFile_def save_def
  by (auto simp: success_simps split: option.splits)

lemma processVideo_try_failure:
  assumes "processVideo_try E recordingId videoUrl job_progress w = (Inl e, w', t)"
  shows "db w' = db w \<and> unlinks t = []"
  using assms
  unfolding processVideo_try_def Let_def http_get_def write_stream_def screenshots_def
    extract_audio_def readFile_def save_def
  by (auto simp: failure_simps success_simps split: option.splits)

lemma mark_failed_eq:
  "bnd (try_catch (findByIdAndUpdate E recordingId Failed msg) (\<lambda>updateError. ret ()))
       (\<lambda>_. throw error) w =
     (Inl error,
      (case db_findByIdAndUpdate E recordingId of
         Some e \<Rightarrow> w
       | None \<Rightarrow>
           (case db w recordingId of
              None \<Rightarrow> w
            | Some doc \<Rightarrow>
                w\<lparr>db := (db w)(recordingId \<mapsto>
                      doc\<lparr>processingStatus := Failed, errorMessage := Some msg\<rparr>)\<rparr>)),
      [FindByIdAndUpdate recordingId Failed msg])"
  by (simp add: bnd_def try_catch_def findByIdAndUpdate_def settle_def ret_def throw_def
      split: option.splits)

lemma processVideo_Inr:
  "processVideo E recordingId videoUrl cb w = (Inr r, w', t) \<longleftrightarrow>
     processVideo_try E recordingId videoUrl cb w = (Inr r, w', t)"
  unfolding processVideo_def try_catch_Inr [of "processVideo_try E recordingId videoUrl cb"]
  by (simp add: mark_failed_eq)

lemma processVideo_of_failure:
  assumes "processVideo_try E recordingId videoUrl cb w = (Inl e, w1, t1)"
  shows "processVideo E recordingId videoUrl cb w =
     (Inl e,
      (case db_findByIdAndUpdate E recordingId of
         Some e' \<Rightarrow> w1
       | None \<Rightarrow>
           (case db w1 recordingId of
              None \<Rightarrow> w1
            | Some doc \<Rightarrow>
                w1\<lparr>db := (db w1)(recordingId \<mapsto>
                      doc\<lparr>processingStatus := Failed,
                          errorMessage := Some (error_message e)\<rparr>)\<rparr>)),
      t1 @ [FindByIdAndUpdate recordingId Failed (error_message e)])"
  unfolding processVideo_def
  by (simp add: try_catch_def [of "processVideo_try E recordingId videoUrl cb"] assms
      mark_failed_eq)





text \<open>
  Claim C7, as the code has it. Whenever the body of \<open>processVideo\<close> fails with an error,
  \<open>processVideo\<close> throws that same error, and the last thing it does before is one
  attempt to set \<open>processingStatus = failed\<close> and \<open>errorMessage\<close> on the Recording of
  that id, the message being the error's own if it is an \<open>Error\<close> and
  \<open>Unknown error\<close> otherwise. The Recording carries both fields afterwards if it exists
  and the update succeeds; if the update itself fails the store is left as it was.
\<close>

theorem processVideo_failure:
  assumes "result (processVideo_try E recordingId videoUrl job_progress w) = Inl e"
  shows "result (processVideo E recordingId videoUrl job_progress w) = Inl e
       \<and> events (processVideo E recordingId videoUrl job_progress w) =
           events (processVideo_try E recordingId videoUrl job_progress w)
           @ [FindByIdAndUpdate recordingId Failed (error_message e)]
       \<and> db (world_after (processVideo E recordingId videoUrl job_progress w)) =
           (case db_findByIdAndUpdate E recordingId of
              Some e' \<Rightarrow> db w
            | None \<Rightarrow>
                (case db w recordingId of
                   None \<Rightarrow> db w
                 | Some doc \<Rightarrow>
                     (db w)(recordingId \<mapsto>
                        doc\<lparr>processingStatus := Failed,
                            errorMessage := Some (error_message e)\<rparr>)))"
proof -
  obtain r w1 t1 where run: "processVideo_try E recordingId videoUrl job_progress w = (r, w1, t1)"
    by (cases "processVideo_try E recordingId videoUrl job_progress w") auto
  with assms have run: "processVideo_try E recordingId videoUrl job_progress w = (Inl e, w1, t1)"
    by simp
  from processVideo_try_failure [OF run] have same: "db w1 = db w" by simp
  show ?thesis
    by (simp add: processVideo_of_failure [OF run] run same split: option.splits)
qed

text \<open>A run in which the thumbnail cannot be generated.\<close>

theorem processVideo_failure_witness:
  "result (processVideo_try thumbnail_failure_env ''r1'' ''http://v'' job_progress demo_world)
     = Inl (JsError ''ffmpeg exited with code 1'') \<and>
   result (processVideo thumbnail_failure_env ''r1'' ''http://v'' job_progress demo_world)
     = Inl (JsError ''ffmpeg exited with code 1'') \<and>
   last (events (processVideo thumbnail_failure_env ''r1'' ''http://v'' job_progress demo_world))
     = FindByIdAndUpdate ''r1'' Failed ''ffmpeg exited with code 1'' \<and>
   db (world_after
         (processVideo thumbnail_failure_env ''r1'' ''http://v'' job_progress demo_world)) ''r1''
     = Some (demo_recording\<lparr>processingStatus := Failed,
               errorMessage := Some ''ffmpeg exited with code 1''\<rparr>)"
proof -
  have failing:
    "result (processVideo_try thumbnail_failure_env ''r1'' ''http://v'' job_progress demo_world)
       = Inl (JsError ''ffmpeg exited with code 1'')"
    by code_simp
  have update: "db_findByIdAndUpdate thumbnail_failure_env ''r1'' = None"
    by (simp add: thumbnail_failure_env_def quiet_env_def)
  have found: "db demo_world ''r1'' = Some demo_recording"
    by (simp add: demo_world_def)
  from processVideo_failure [OF failing] failing update found show ?thesis
    by (simp add: error_message_def)
qed

text \<open>
  Claim C7 as stated has the Recording record every failure. When the download times out
  and the status update fails as well, the error reaches the caller and the Recording still
  reads \<open>processing\<close>, with no error message.
\<close>

theorem failure_not_recorded:
  "result (processVideo outage_env ''r1'' ''http://v'' job_progress demo_world)
     = Inl (JsError ''ETIMEDOUT'') \<and>
   map_option processingStatus
     (db (world_after (processVideo outage_env ''r1'' ''http://v'' job_progress demo_world)) ''r1'')
     = Some Processing \<and>
   map_option errorMessage
     (db (world_after (processVideo outage_env ''r1'' ''http://v'' job_progress demo_world)) ''r1'')
     = Some None"
  by code_simp

text \<open>On the transform lane the worker's report of 10 and the engine's reports never
  decrease, on any path.\<close>

lemma transform_job_progress_sorted:
  "sorted (progress_values (events (process_video_job E recordingId videoUrl w)))"
proof -
  obtain r w1 t1 where
    run: "processVideo_try E recordingId videoUrl job_progress w = (r, w1, t1)"
    by (cases "processVideo_try E recordingId videoUrl job_progress w") auto
  show ?thesis
  proof (cases r)
    case (Inr v)
    with run have "processVideo E recordingId videoUrl job_progress w = (Inr v, w1, t1)"
      by (simp add: processVideo_Inr)
    with processVideo_try_events [OF run [unfolded Inr]] show ?thesis
      by (simp add: process_video_job_def events_bnd job_progress_def)
  next
    case (Inl e)
    from run [unfolded Inl] have "sorted (10 # progress_values t1)"
      unfolding processVideo_try_def Let_def http_get_def write_stream_def screenshots_def
        extract_audio_def readFile_def save_def
      by (auto simp: failure_simps success_simps split: option.splits)
    with processVideo_of_failure [OF run [unfolded Inl]] show ?thesis
      by (simp add: process_video_job_def events_bnd job_progress_def progress_values_append)
  qed
qed

section \<open>The voice operation\<close>



lemma generateAudio_loop_first_report:
  "\<exists>t. events (generateAudio_loop E recordingId job_progress totalSegments 0
                  (segment # segments) w) = Progress 0 # t"
  using events_bnd_prefix [of "job_progress (of_nat 0 / of_nat totalSegments * 80)" _ w]
  by (simp add: job_progress_def)








text \<open>
  Claim C1 asks that the values on a job's progress channel never decrease. On the voice
  lane the worker reports 10 and the engine then reports \<open>0 / n * 80 = 0\<close> for the first
  segment: the job over one segment reports 10, 0, 90, 100.
\<close>

theorem voice_job_progress_drops:
  "progress_values (events (generate_audio_job quiet_env ''r1'' [demo_segment] demo_world))
     = [10, 0, 90, 100] \<and>
   \<not> sorted (progress_values
               (events (generate_audio_job quiet_env ''r1'' [demo_segment] demo_world)))"
proof -
  have v: "progress_values (events (generate_audio_job quiet_env ''r1'' [demo_segment] demo_world))
     = [10, 0, 90, 100]"
    by code_simp
  show ?thesis unfolding v by simp
qed

text \<open>The same for every voice job with at least one segment whose Recording is found.\<close>

lemma voice_job_second_report:
  assumes "db_findById E recordingId = None"
    and "db w recordingId = Some recording"
  shows "\<exists>rest. progress_values
                 (events (generate_audio_job E recordingId (segment # segments) w))
               = 10 # 0 # rest"
proof -
  let ?loop = "generateAudio_loop E recordingId job_progress (length (segment # segments)) 0
                 (segment # segments)"
  obtain t1 where loop: "events (?loop w) = Progress 0 # t1"
    using generateAudio_loop_first_report by blast
  obtain t2 where "events (bnd ?loop (\<lambda>segments'.
        bnd (job_progress 90) (\<lambda>_.
        bnd (save E recordingId (recording\<lparr>script_segments := segments'\<rparr>)) (\<lambda>_.
        bnd (job_progress 100) (\<lambda>_.
        ret \<lparr>ar_recordingId = recordingId, ar_segments = segments',
             ar_status = ''completed''\<rparr>)))) w) = events (?loop w) @ t2"
    using events_bnd_prefix by blast
  with loop assms
  have "events (generateAudio E recordingId (segment # segments) job_progress w)
          = FindById recordingId # Progress 0 # t1 @ t2"
    by (simp add: generateAudio_def events_bnd findById_def)
  then have "events (generate_audio_job E recordingId (segment # segments) w)
          = Progress 10 # FindById recordingId # Progress 0 # t1 @ t2"
    by (simp add: generate_audio_job_def events_bnd job_progress_def)
  then show ?thesis by simp
qed

section \<open>The export operation\<close>






lemma for_each_progress:
  "for_each (\<lambda>v. job_progress (f v)) vs w = (Inr (), w, map (\<lambda>v. Progress (f v)) vs)"
  by (induction vs) (simp_all add: ret_def bnd_def job_progress_def)

lemma run_command_eq:
  "run_command E command outputPath job_progress w =
     (case snd (ffmpeg_run E command) of
        None \<Rightarrow> Inr ()
      | Some e \<Rightarrow> Inl e,
      case snd (ffmpeg_run E command) of
        None \<Rightarrow> creates outputPath w
      | Some e \<Rightarrow> w,
      Run command # map (\<lambda>percent. Progress (encode_percent percent)) (fst (ffmpeg_run E command)))"
  by (simp add: run_command_def bnd_def settle_with_def for_each_progress split: option.splits)

lemma run_command_Inr:
  "run_command E command outputPath job_progress w = (Inr u, w', t) \<longleftrightarrow>
     snd (ffmpeg_run E command) = None \<and> w' = creates outputPath w \<and>
     t = Run command
         # map (\<lambda>percent. Progress (encode_percent percent)) (fst (ffmpeg_run E command))"
  by (auto simp: run_command_eq split: option.splits)

lemma run_command_Inl:
  "run_command E command outputPath job_progress w = (Inl e, w', t) \<longleftrightarrow>
     snd (ffmpeg_run E command) = Some e \<and> w' = w \<and>
     t = Run command
         # map (\<lambda>percent. Progress (encode_percent percent)) (fst (ffmpeg_run E command))"
  by (auto simp: run_command_eq split: option.splits)

lemma exportVideo_events:
  assumes "exportVideo E recordingId format options job_progress w = (Inr r, w', t)"
    and "db w recordingId = Some recording"
  shows "t = [FindById recordingId, Progress 10, HttpGet (originalVideoUrl recording),
          WriteStream (temp_path E 0 ''.mp4''), Progress 30, Progress 50]
         @ (if subtitles recording = [] then []
            else [WriteFile (temp_path E 2 ''.srt'') (srtContent (subtitles recording))])
         @ [Progress 70, Run (export_command E recording format options)]
         @ map (\<lambda>percent. Progress (encode_percent percent))
             (fst (ffmpeg_run E (export_command E recording format options)))
         @ [Progress 95, ReadFile (temp_path E 1 (''.'' @ format_str format)),
            S3Upload (''exports/'' @ recordingId @ ''/'' @ toString_nat (date_now E 0)
                        @ ''.'' @ format_str format) (''video/'' @ format_str format),
            Unlink (temp_path E 0 ''.mp4''),
            Unlink (temp_path E 1 (''.'' @ format_str format)), Progress 100]"
proof (cases "subtitles recording = []")
  case True
  with assms show ?thesis
    unfolding exportVideo_def Let_def http_get_def write_stream_def readFile_def writeFile_def
      try_catch_rethrow export_command_def
    by (simp add: success_simps run_command_Inr) auto
next
  case False
  with assms show ?thesis
    unfolding exportVideo_def Let_def http_get_def write_stream_def readFile_def writeFile_def
      try_catch_rethrow export_command_def
    by (simp add: success_simps run_command_Inr) auto
qed

lemma exportVideo_not_found:
  assumes "db w recordingId = None"
  shows "exportVideo E recordingId format options cb w =
           (case db_findById E recordingId of
              None \<Rightarrow> Inl (JsError ''Recording not found'')
            | Some e \<Rightarrow> Inl e, w, [FindById recordingId])"
  using assms
  unfolding exportVideo_def try_catch_rethrow
  by (simp add: bnd_def findById_def throw_def split: option.splits)

lemma exportVideo_failure_found:
  assumes "exportVideo E recordingId format options job_progress w = (Inl e, w', t)"
    and "db w recordingId = Some recording"
  shows "unlinks t = [] \<and> db w' = db w \<and>
     (\<forall>c. Run c \<in> set t \<longrightarrow> c = export_command E recording format options)"
proof (cases "subtitles recording = []")
  case True
  with assms show ?thesis
    unfolding exportVideo_def Let_def http_get_def write_stream_def readFile_def writeFile_def
      try_catch_rethrow export_command_def
    by (simp add: failure_simps success_simps run_command_Inr run_command_Inl) auto
next
  case False
  with assms show ?thesis
    unfolding exportVideo_def Let_def http_get_def write_stream_def readFile_def writeFile_def
      try_catch_rethrow export_command_def
    by (simp add: failure_simps success_simps run_command_Inr run_command_Inl) auto
qed


lemma exportVideo_runs:
  assumes "Run c \<in> set (events (exportVideo E recordingId format options job_progress w))"
  shows "\<exists>recording. db w recordingId = Some recording \<and>
           c = export_command E recording format options"
proof (cases "db w recordingId")
  case None
  from assms show ?thesis
    unfolding exportVideo_not_found [OF None] by simp
next
  case (Some recording)
  obtain r w' t where run: "exportVideo E recordingId format options job_progress w = (r, w', t)"
    by (cases "exportVideo E recordingId format options job_progress w") auto
  have "c = export_command E recording format options"
  proof (cases r)
    case (Inl e)
    with run exportVideo_failure_found [of E recordingId format options w e w' t recording]
      assms Some
    show ?thesis by simp
  next
    case (Inr v)
    with run exportVideo_events [of E recordingId format options w v w' t recording] assms Some
    show ?thesis by (auto split: if_splits)
  qed
  with Some show ?thesis by simp
qed


text \<open>
  Claim C8. For a Recording without visual effects and without subtitles, exported as mp4
  with neither \<open>resolution\<close> nor \<open>frameRate\<close> set (in particular with empty options),
  the command handed to the encoder consists of the input, \<open>libx264\<close> video, \<open>aac\<close>
  audio, the size \<open>1920x1080\<close>, 30 frames per second and the output: no complex filter
  and no subtitle filter.
\<close>

theorem plain_mp4_export:
  assumes "db w recordingId = Some recording"
    and "visualEffects recording = []"
    and "subtitles recording = []"
    and "resolution options = None"
    and "frameRate options = None"
    and "Run c \<in> set (events (exportVideo E recordingId Mp4 options job_progress w))"
  shows "c = [Input (temp_path E 0 ''.mp4''), VideoCodec ''libx264'', AudioCodec ''aac'',
              Size ''1920x1080'', Fps 30, Output (temp_path E 1 ''.mp4'')]"
proof -
  from exportVideo_runs [OF assms(6)] assms(1)
  have "c = export_command E recording Mp4 options" by auto
  with assms(2-5) show ?thesis
    by (simp add: export_command_def apply_effects_def configure_output_def str_or_def
        num_or_def format_str_def)
qed

text \<open>The export of such a Recording with empty options.\<close>

theorem plain_mp4_export_witness:
  "db demo_world ''r1'' = Some demo_recording
   \<and> visualEffects demo_recording = [] \<and> subtitles demo_recording = []
   \<and> resolution empty_options = None \<and> frameRate empty_options = None
   \<and> Run [Input ''/tmp/a.mp4'', VideoCodec ''libx264'', AudioCodec ''aac'',
           Size ''1920x1080'', Fps 30, Output ''/tmp/b.mp4'']
       \<in> set (events (exportVideo quiet_env ''r1'' Mp4 empty_options job_progress demo_world))
   \<and> returned (exportVideo quiet_env ''r1'' Mp4 empty_options job_progress demo_world)
   \<and> temp_path quiet_env 0 ''.mp4'' = ''/tmp/a.mp4''
   \<and> temp_path quiet_env 1 ''.mp4'' = ''/tmp/b.mp4''"
proof -
  let ?c = "[Input ''/tmp/a.mp4'', VideoCodec ''libx264'', AudioCodec ''aac'',
           Size ''1920x1080'', Fps 30, Output ''/tmp/b.mp4'']"
  have found: "db demo_world ''r1'' = Some demo_recording"
    by (simp add: demo_world_def)
  have fx: "visualEffects demo_recording = []" and subs: "subtitles demo_recording = []"
    by (simp_all add: demo_recording_def)
  have res: "resolution empty_options = None" and fps: "frameRate empty_options = None"
    by (simp_all add: empty_options_def)
  have ran: "Run ?c
       \<in> set (events (exportVideo quiet_env ''r1'' Mp4 empty_options job_progress demo_world))"
    by code_simp
  have ok: "returned (exportVideo quiet_env ''r1'' Mp4 empty_options job_progress demo_world)"
    by code_simp
  from plain_mp4_export [OF found fx subs res fps ran]
  have "?c = [Input (temp_path quiet_env 0 ''.mp4''), VideoCodec ''libx264'', AudioCodec ''aac'',
              Size ''1920x1080'', Fps 30, Output (temp_path quiet_env 1 ''.mp4'')]" .
  then have "temp_path quiet_env 0 ''.mp4'' = ''/tmp/a.mp4''"
    and "temp_path quiet_env 1 ''.mp4'' = ''/tmp/b.mp4''"
    by simp_all
  with found fx subs res fps ran ok show ?thesis by blast
qed

lemma configure_output_options:
  "configure_output format
     (options\<lparr>quality := q, includeSubtitles := s, includeAudio := a, watermark := wm\<rparr>) c
   = configure_output format options c"
  by (cases format) (simp_all add: configure_output_def)

lemma AddOption_configure_output [simp]:
  "AddOption k v \<in> set (configure_output format options c) \<longleftrightarrow> AddOption k v \<in> set c"
  by (simp add: configure_output_def split: format.splits)

lemma ComplexFilter_configure_output [simp]:
  "ComplexFilter f \<in> set (configure_output format options c) \<longleftrightarrow> ComplexFilter f \<in> set c"
  by (simp add: configure_output_def split: format.splits)

lemma AddOption_apply_effects [simp]:
  "AddOption k v \<in> set (apply_effects ns effects c) \<longleftrightarrow> AddOption k v \<in> set c"
  by (simp add: apply_effects_def Let_def)

lemma ComplexFilter_apply_effects:
  "ComplexFilter f \<in> set (apply_effects ns effects [Input p]) \<Longrightarrow>
     f = join '';'' (forEach_effect ns 0 effects [])"
  by (auto simp: apply_effects_def Let_def split: if_splits)

text \<open>
  Claim C10. A run of \<open>exportVideo\<close>, and with it the command it hands to the encoder,
  is the same for any two options that differ only in \<open>quality\<close>,
  \<open>includeSubtitles\<close>, \<open>includeAudio\<close> and \<open>watermark\<close>. The command carries the
  subtitle filter exactly when the Recording has subtitles; that filter is the only option
  ever added, and the only complex filter is the one built from the visual effects, so no
  watermark filter is added.
\<close>

theorem export_ignores_unread_options:
  "exportVideo E recordingId format
     (options\<lparr>quality := q, includeSubtitles := s, includeAudio := a, watermark := wm\<rparr>) cb w
     = exportVideo E recordingId format options cb w
   \<and> (Run c \<in> set (events (exportVideo E recordingId format options job_progress w)) \<longrightarrow>
        (\<exists>recording. db w recordingId = Some recording
           \<and> c = export_command E recording format options
           \<and> ((AddOption ''-vf'' (''subtitles='' @ temp_path E 2 ''.srt'') \<in> set c)
                = (subtitles recording \<noteq> []))
           \<and> (\<forall>k v. AddOption k v \<in> set c \<longrightarrow>
                 k = ''-vf'' \<and> v = ''subtitles='' @ temp_path E 2 ''.srt'')
           \<and> (\<forall>f. ComplexFilter f \<in> set c \<longrightarrow>
                 f = join '';'' (forEach_effect (num_str E) 0 (visualEffects recording) []))))"
proof -
  have same: "exportVideo E recordingId format
     (options\<lparr>quality := q, includeSubtitles := s, includeAudio := a, watermark := wm\<rparr>) cb w
     = exportVideo E recordingId format options cb w"
    unfolding exportVideo_def configure_output_options ..
  have cmd: "\<exists>recording. db w recordingId = Some recording
           \<and> c = export_command E recording format options
           \<and> ((AddOption ''-vf'' (''subtitles='' @ temp_path E 2 ''.srt'') \<in> set c)
                = (subtitles recording \<noteq> []))
           \<and> (\<forall>k v. AddOption k v \<in> set c \<longrightarrow>
                 k = ''-vf'' \<and> v = ''subtitles='' @ temp_path E 2 ''.srt'')
           \<and> (\<forall>f. ComplexFilter f \<in> set c \<longrightarrow>
                 f = join '';'' (forEach_effect (num_str E) 0 (visualEffects recording) []))"
    if "Run c \<in> set (events (exportVideo E recordingId format options job_progress w))"
  proof -
    from exportVideo_runs [OF that] obtain recording where
      found: "db w recordingId = Some recording"
      and c: "c = export_command E recording format options"
      by blast
    have 1: "(AddOption ''-vf'' (''subtitles='' @ temp_path E 2 ''.srt'') \<in> set c)
                = (subtitles recording \<noteq> [])"
      unfolding c export_command_def by simp
    have 2: "\<forall>k v. AddOption k v \<in> set c \<longrightarrow>
                 k = ''-vf'' \<and> v = ''subtitles='' @ temp_path E 2 ''.srt''"
      unfolding c export_command_def by (simp split: if_splits)
    have 3: "\<forall>f. ComplexFilter f \<in> set c \<longrightarrow>
                 f = join '';'' (forEach_effect (num_str E) 0 (visualEffects recording) [])"
      unfolding c export_command_def
      by (auto split: if_splits dest: ComplexFilter_apply_effects)
    from found c 1 2 3 show ?thesis by blast
  qed
  from same cmd show ?thesis by blast
qed

text \<open>The export of a Recording with one subtitle cue.\<close>

theorem export_ignores_unread_options_witness:
  "Run (export_command quiet_env subtitled_recording Gif empty_options)
     \<in> set (events (exportVideo quiet_env ''r2'' Gif empty_options job_progress subtitled_world))
   \<and> subtitles subtitled_recording \<noteq> []
   \<and> AddOption ''-vf'' (''subtitles='' @ temp_path quiet_env 2 ''.srt'')
       \<in> set (export_command quiet_env subtitled_recording Gif empty_options)"
proof -
  let ?c = "export_command quiet_env subtitled_recording Gif empty_options"
  have ran: "Run ?c
     \<in> set (events (exportVideo quiet_env ''r2'' Gif empty_options job_progress subtitled_world))"
    by code_simp
  have found: "db subtitled_world ''r2'' = Some subtitled_recording"
    by (simp add: subtitled_world_def)
  have subs: "subtitles subtitled_recording \<noteq> []"
    by (simp add: subtitled_recording_def)
  from export_ignores_unread_options [where E = quiet_env and recordingId = "''r2''"
      and format = Gif and options = empty_options and w = subtitled_world and c = ?c]
    ran
  obtain recording where r: "db subtitled_world ''r2'' = Some recording"
    and a: "(AddOption ''-vf'' (''subtitles='' @ temp_path quiet_env 2 ''.srt'') \<in> set ?c)
              = (subtitles recording \<noteq> [])"
    by blast
  from r found have "recording = subtitled_recording" by simp
  with a subs have "AddOption ''-vf'' (''subtitles='' @ temp_path quiet_env 2 ''.srt'') \<in> set ?c"
    by simp
  with ran subs show ?thesis by blast
qed

section \<open>Temporary files\<close>

lemma result_try_catch_rethrow_free:
  "result (try_catch m h w) =
     (case m w of (Inl e, w1, t1) \<Rightarrow> result (h e w1) | (Inr v, w1, t1) \<Rightarrow> Inr v)"
  by (simp add: try_catch_def result_def split: prod.splits sum.splits)





lemma files_creates [simp]: "files (creates p w) = insert p (files w)"
  by (simp add: creates_def)










text \<open>The subtitle file of an export is not among the files deleted when it returns.\<close>

lemma subtitle_file_left_behind:
  "returned (exportVideo quiet_env ''r2'' Gif empty_options job_progress subtitled_world)
   \<and> files (world_after
              (exportVideo quiet_env ''r2'' Gif empty_options job_progress subtitled_world))
       = {''/tmp/c.srt''}"
  by code_simp

end
